theory Spec2Isabelle
  imports Complex_Main "HOL-Library.Word" "HOL-Library.Char_ord" "HOL-Library.List_Lexorder"
    "HOL-Library.AList"
begin

section \<open>Tag normalisation (tagUtils.ts)\<close>

text \<open>
  \<open>normalizeTag\<close> inspects character classes, so its strings are sequences of UTF-16
  code units. \<open>isWhiteSpace\<close> is the class that both \<open>String.prototype.trim\<close> and the
  regular expression \<open>\s\<close> use: ECMAScript's WhiteSpace and LineTerminator.
\<close>

type_synonym code_unit = "16 word"
type_synonym jsstring = "code_unit list"

definition isWhiteSpace :: "code_unit \<Rightarrow> bool" where
  "isWhiteSpace c =
     (c = 0x9 \<or> c = 0xA \<or> c = 0xB \<or> c = 0xC \<or> c = 0xD \<or> c = 0x20 \<or> c = 0xA0 \<or>
      c = 0x1680 \<or> (0x2000 \<le> c \<and> c \<le> 0x200A) \<or> c = 0x2028 \<or> c = 0x2029 \<or>
      c = 0x202F \<or> c = 0x205F \<or> c = 0x3000 \<or> c = 0xFEFF)"

definition trim :: "jsstring \<Rightarrow> jsstring" where
  "trim s = rev (dropWhile isWhiteSpace (rev (dropWhile isWhiteSpace s)))"

text \<open>
  \<open>toLowerCase\<close> maps \<open>A\<close>..\<open>Z\<close> to \<open>a\<close>..\<open>z\<close> and leaves every other ASCII unit
  alone. What it writes for a unit outside ASCII depends on the Unicode case tables and
  on the unit's context (a surrogate pair, a final sigma), so it is a parameter that
  sees the whole string and the position.
\<close>

definition toLowerCase :: "(jsstring \<Rightarrow> nat \<Rightarrow> jsstring) \<Rightarrow> jsstring \<Rightarrow> jsstring" where
  "toLowerCase lowerNonAscii s =
     concat (map (\<lambda>i. let c = s ! i in
                        if 0x41 \<le> c \<and> c \<le> 0x5A then [c + 0x20]
                        else if c < 0x80 then [c]
                        else lowerNonAscii s i)
                 [0..<length s])"

text \<open>\<open>.replace(/\s+/g, '-')\<close>: every maximal run of white space becomes one hyphen.\<close>

function replaceWhitespaceRuns :: "jsstring \<Rightarrow> jsstring" where
  "replaceWhitespaceRuns [] = []"
| "replaceWhitespaceRuns (c # cs) =
     (if isWhiteSpace c then 0x2D # replaceWhitespaceRuns (dropWhile isWhiteSpace cs)
      else c # replaceWhitespaceRuns cs)"
  by pat_completeness auto
termination
  by (relation "measure length") (auto simp: length_dropWhile_le less_Suc_eq_le)

text \<open>The units that \<open>.replace(/[^a-z0-9-]/g, '')\<close> keeps.\<close>

definition isTagChar :: "code_unit \<Rightarrow> bool" where
  "isTagChar c = ((0x61 \<le> c \<and> c \<le> 0x7A) \<or> (0x30 \<le> c \<and> c \<le> 0x39) \<or> c = 0x2D)"

definition normalizeTag :: "(jsstring \<Rightarrow> nat \<Rightarrow> jsstring) \<Rightarrow> jsstring \<Rightarrow> jsstring" where
  "normalizeTag lowerNonAscii tag =
     (if tag = [] then []
      else filter isTagChar (replaceWhitespaceRuns (toLowerCase lowerNonAscii (trim tag))))"

section \<open>JavaScript values used by the pipeline\<close>

text \<open>
  A JavaScript number is a finite double, modelled by the rational it denotes, or one
  of \<open>Infinity\<close>, \<open>-Infinity\<close> and \<open>NaN\<close> (the JSON text \<open>1e999\<close> parses to
  \<open>Infinity\<close>). A value of type \<open>string | null | undefined\<close> is a \<open>jsstr\<close>;
  \<open>number | undefined\<close> is \<open>number option\<close>. A \<open>Map\<close> is an association list in
  insertion order: \<open>AList.update\<close> overwrites a key in place or appends it, as
  \<open>Map.prototype.set\<close> does.
\<close>

datatype number = Finite rat | PosInfinity | NegInfinity | NaN

datatype jsstr = Undefined | Null | Str string

primrec truthy :: "jsstr \<Rightarrow> bool" where
  "truthy Undefined = False"
| "truthy Null = False"
| "truthy (Str s) = (s \<noteq> [])"

text \<open>\<open>x ?? y\<close>: the left operand unless it is nullish.\<close>

primrec nullish :: "'a option \<Rightarrow> 'a option \<Rightarrow> 'a option" where
  "nullish None y = y"
| "nullish (Some x) y = Some x"

text \<open>\<open>xs && xs.length > 0\<close> for an optional array.\<close>

primrec nonEmptyArray :: "'a list option \<Rightarrow> bool" where
  "nonEmptyArray None = False"
| "nonEmptyArray (Some xs) = (0 < length xs)"

text \<open>\<open>Set.prototype.add\<close> on an insertion-ordered set.\<close>

definition Set_add :: "'a \<Rightarrow> 'a list \<Rightarrow> 'a list" where
  "Set_add x xs = (if List.member xs x then xs else xs @ [x])"

subsection \<open>Rendering numbers\<close>

definition isDigit :: "char \<Rightarrow> bool" where
  "isDigit c = (c \<in> set ''0123456789'')"

definition digitChar :: "nat \<Rightarrow> char" where
  "digitChar d = ''0123456789'' ! (d mod 10)"

function digitsOf :: "nat \<Rightarrow> string" where
  "digitsOf n = (if n < 10 then [digitChar n] else digitsOf (n div 10) @ [digitChar (n mod 10)])"
  by pat_completeness auto
termination
  by (relation "measure id") auto

declare digitsOf.simps [simp del]

definition digitValue :: "char \<Rightarrow> nat" where
  "digitValue c = of_char c - 48"

definition natOfDigits :: "string \<Rightarrow> nat" where
  "natOfDigits ds = foldl (\<lambda>n c. 10 * n + digitValue c) 0 ds"

text \<open>
  \<open>Number.prototype.toFixed(1)\<close> as ECMAScript defines it. A number that is not finite
  is rendered by \<open>Number::toString\<close>: \<open>NaN\<close>, \<open>Infinity\<close>, \<open>-Infinity\<close>. A finite one
  gives its sign, then for a magnitude below \<open>10^21\<close> the integer \<open>n\<close> with \<open>n / 10\<close>
  closest to the magnitude (the larger one on a tie) written with its last digit after
  the point. From \<open>10^21\<close> on the result is the sign and \<open>Number::toString\<close> of the
  magnitude (exponent notation), which is a parameter here.
\<close>

definition toFixed1 :: "(rat \<Rightarrow> string) \<Rightarrow> number \<Rightarrow> string" where
  "toFixed1 numberToString x =
     (case x of
        NaN \<Rightarrow> ''NaN''
      | PosInfinity \<Rightarrow> ''Infinity''
      | NegInfinity \<Rightarrow> ''-Infinity''
      | Finite q \<Rightarrow>
          (let s = (if q < 0 then ''-'' else '''');
               y = \<bar>q\<bar>
           in if 10 ^ 21 \<le> y then s @ numberToString y
              else let n = nat \<lfloor>y * 10 + 1 / 2\<rfloor>
                   in s @ digitsOf (n div 10) @ ''.'' @ [digitChar (n mod 10)]))"

text \<open>
  Text with exactly one decimal digit: an optional minus sign, at least one digit, a
  point and one digit.
\<close>

definition oneDecimalDigit :: "string \<Rightarrow> bool" where
  "oneDecimalDigit s =
     (let body = (case s of [] \<Rightarrow> s | c # r \<Rightarrow> if c = CHR ''-'' then r else s)
      in 3 \<le> length body \<and> list_all isDigit (butlast (butlast body)) \<and>
         last (butlast body) = CHR ''.'' \<and> isDigit (last body))"

definition endsWithBracket :: "string \<Rightarrow> bool" where
  "endsWithBracket s = (case rev s of [] \<Rightarrow> False | c # r \<Rightarrow> c = CHR '']'')"

subsection \<open>Plain objects used as dictionaries\<close>

text \<open>
  A plain object \<open>{}\<close> whose keys are strings is the list of its own properties in the
  order \<open>Object.keys\<close> and \<open>JSON.stringify\<close> enumerate them: array-index keys in
  ascending numeric order first, then the other keys in insertion order. An array index
  is the canonical decimal text of an integer from 0 to \<open>2^32 - 2\<close>.
\<close>

definition isArrayIndex :: "string \<Rightarrow> bool" where
  "isArrayIndex k =
     (case k of
        [] \<Rightarrow> False
      | c # r \<Rightarrow>
          list_all isDigit k \<and> (c \<noteq> CHR ''0'' \<or> r = []) \<and>
          (length k < 10 \<or> (length k = 10 \<and> k < ''4294967295'')))"

text \<open>Numeric order on array indices: by length, then digit by digit.\<close>

definition indexLess :: "string \<Rightarrow> string \<Rightarrow> bool" where
  "indexLess a b = (length a < length b \<or> (length a = length b \<and> a < b))"

fun insertArrayIndex :: "string \<Rightarrow> 'v \<Rightarrow> (string \<times> 'v) list \<Rightarrow> (string \<times> 'v) list" where
  "insertArrayIndex k v [] = [(k, v)]"
| "insertArrayIndex k v (p # ps) =
     (if isArrayIndex (fst p) \<and> indexLess (fst p) k
      then p # insertArrayIndex k v ps
      else (k, v) # p # ps)"

text \<open>
  The assignment \<open>obj[k] = v\<close>. The key \<open>__proto__\<close> is the accessor inherited from
  \<open>Object.prototype\<close>: assigning to it creates no own property.
\<close>

definition Object_set :: "string \<Rightarrow> 'v \<Rightarrow> (string \<times> 'v) list \<Rightarrow> (string \<times> 'v) list" where
  "Object_set k v obj =
     (if k = ''__proto__'' then obj
      else if List.member (map fst obj) k then AList.update k v obj
      else if isArrayIndex k then insertArrayIndex k v obj
      else obj @ [(k, v)])"

text \<open>
  The properties every plain object inherits from \<open>Object.prototype\<close>: for these keys
  \<open>obj[k]\<close> is truthy (a function, or the prototype itself) although \<open>obj\<close> has no such
  own property.
\<close>

definition objectPrototypeKeys :: "string list" where
  "objectPrototypeKeys =
     [''constructor'', ''__defineGetter__'', ''__defineSetter__'', ''hasOwnProperty'',
      ''__lookupGetter__'', ''__lookupSetter__'', ''isPrototypeOf'', ''propertyIsEnumerable'',
      ''toString'', ''valueOf'', ''__proto__'', ''toLocaleString'']"

text \<open>
  Whether \<open>obj[k]\<close> is truthy, for an object whose own values are objects. (A write
  through the inherited \<open>__proto__\<close> adds a property to \<open>Object.prototype\<close> itself;
  such additions are not tracked here.)
\<close>

definition Object_truthyAt :: "string \<Rightarrow> (string \<times> 'v) list \<Rightarrow> bool" where
  "Object_truthyAt k obj = (List.member (map fst obj) k \<or> List.member objectPrototypeKeys k)"

text \<open>
  The assignment \<open>obj[k1][k2] = v\<close> where \<open>obj[k1]\<close> is truthy. When \<open>obj[k1]\<close> is an
  own table the entry is written there; when it is inherited the write lands on the
  inherited object and \<open>obj\<close>'s own properties stay as they are.
\<close>

definition Object_setIn ::
  "string \<Rightarrow> string \<Rightarrow> 'v \<Rightarrow> (string \<times> (string \<times> 'v) list) list \<Rightarrow> (string \<times> (string \<times> 'v) list) list" where
  "Object_setIn k1 k2 v obj =
     (case map_of obj k1 of
        Some inner \<Rightarrow> AList.update k1 (Object_set k2 v inner) obj
      | None \<Rightarrow> obj)"

section \<open>The comparison pipeline: data\<close>

text \<open>
  Field names follow the TypeScript types; \<open>id\<close>, \<open>system\<close>, \<open>temperature\<close>,
  \<open>promptText\<close> and \<open>description\<close> occur in more than one type and carry the
  type's name as a prefix.
\<close>

record ConversationMessage =
  role :: string
  content :: string

record PromptConfig =
  prompt_id :: string
  prompt_promptText :: "string option"
  messages :: "ConversationMessage list option"
  idealResponse :: "string option"
  prompt_system :: jsstr
  prompt_temperature :: "number option"

record ComparisonConfig =
  config_id :: "string option"
  config_title :: "string option"
  config_description :: "string option"
  prompts :: "PromptConfig list"
  models :: "string list"
  config_temperature :: "number option"
  temperatures :: "number list option"
  config_system :: jsstr
  systems :: "jsstr list option"
  concurrency :: "nat option"

record ResponseRecord =
  finalAssistantResponseText :: string
  fullConversationHistory :: "ConversationMessage list"
  hasError :: bool
  errorMessage :: "string option"
  systemPromptUsed :: "string option"

record PromptResponseData =
  promptId :: string
  promptText :: "string option"
  initialMessages :: "ConversationMessage list"
  idealResponseText :: "string option"
  modelResponses :: "(string \<times> ResponseRecord) list"

text \<open>
  A thrown value: \<open>undefined\<close>, \<open>null\<close>, or a value with its \<open>message\<close> property
  (absent on a value that is not an \<open>Error\<close>) and its \<open>String(...)\<close> form.
\<close>

datatype Thrown = ThrownUndefined | ThrownNull | ThrownValue "string option" string

text \<open>
  Both catch blocks of the pipeline read \<open>error.message\<close> first. On \<open>undefined\<close> and
  \<open>null\<close> that read raises a \<open>TypeError\<close> inside the handler (the text is V8's).
\<close>

definition typeErrorReadingMessage :: "string \<Rightarrow> Thrown" where
  "typeErrorReadingMessage what =
     ThrownValue (Some (''Cannot read properties of '' @ what @ '' (reading 'message')''))
       (''TypeError: Cannot read properties of '' @ what @ '' (reading 'message')'')"

primrec errorMessageOf :: "Thrown \<Rightarrow> Thrown + string option" where
  "errorMessageOf ThrownUndefined = Inl (typeErrorReadingMessage ''undefined'')"
| "errorMessageOf ThrownNull = Inl (typeErrorReadingMessage ''null'')"
| "errorMessageOf (ThrownValue msg str) = Inr msg"

primrec stringOf :: "Thrown \<Rightarrow> string" where
  "stringOf ThrownUndefined = ''undefined''"
| "stringOf ThrownNull = ''null''"
| "stringOf (ThrownValue msg str) = str"

record LlmRequest =
  modelId :: string
  request_messages :: "ConversationMessage list"
  request_temperature :: "number option"
  useCache :: bool

text \<open>
  One enqueued task: the position of its prompt in \<open>config.prompts\<close>, the prompt and
  its message list, the model, the entry of \<open>temperaturesToRun\<close>, and the entry of
  \<open>systemPromptsToRun\<close> with its index.
\<close>

type_synonym GenerationTask =
  "nat \<times> PromptConfig \<times> ConversationMessage list \<times> string \<times> number option \<times> jsstr \<times> nat"

text \<open>
  What \<open>generateAllResponses\<close> imports or depends on: \<open>getModelResponse\<close> and
  \<open>DEFAULT_TEMPERATURE\<close> of the LLM service, \<open>checkForErrors\<close>, the
  \<open>Number::toString\<close> that \<open>toFixed\<close> falls back to, and the order in which the
  tasks handed to the concurrency limiter settle (in a real run a permutation of the
  order in which they were enqueued). A provider call that throws returns \<open>Inl\<close>.
\<close>

record GenerationDeps =
  getModelResponse :: "LlmRequest \<Rightarrow> Thrown + string"
  checkForErrors :: "string \<Rightarrow> bool"
  DEFAULT_TEMPERATURE :: number
  numberToString :: "rat \<Rightarrow> string"
  settleOrder :: "GenerationTask list \<Rightarrow> GenerationTask list"

section \<open>Response generation\<close>

definition temperaturesToRun :: "ComparisonConfig \<Rightarrow> number option list" where
  "temperaturesToRun config =
     (case temperatures config of
        Some ts \<Rightarrow> if 0 < length ts then map Some ts else [config_temperature config]
      | None \<Rightarrow> [config_temperature config])"

definition systemPromptsToRun :: "ComparisonConfig \<Rightarrow> jsstr list" where
  "systemPromptsToRun config =
     (case systems config of
        Some ss \<Rightarrow> if 0 < length ss then ss else [config_system config]
      | None \<Rightarrow> [config_system config])"

definition totalResponsesToGenerate :: "ComparisonConfig \<Rightarrow> nat" where
  "totalResponsesToGenerate config =
     length (prompts config) * length (models config) * length (temperaturesToRun config)
       * length (systemPromptsToRun config)"

definition systemPromptToUse :: "ComparisonConfig \<Rightarrow> PromptConfig \<Rightarrow> jsstr \<Rightarrow> jsstr" where
  "systemPromptToUse config promptConfig systemPromptValue =
     (if nonEmptyArray (systems config) then systemPromptValue
      else if prompt_system promptConfig \<noteq> Undefined then prompt_system promptConfig
      else config_system config)"

definition temperatureForThisCall ::
  "number \<Rightarrow> ComparisonConfig \<Rightarrow> PromptConfig \<Rightarrow> number option \<Rightarrow> number option" where
  "temperatureForThisCall dflt config promptConfig tempValue =
     nullish (nullish (nullish tempValue (prompt_temperature promptConfig))
                      (config_temperature config))
             (Some dflt)"

definition finalEffectiveId ::
  "(rat \<Rightarrow> string) \<Rightarrow> ComparisonConfig \<Rightarrow> string \<Rightarrow> number option \<Rightarrow> nat \<Rightarrow> string" where
  "finalEffectiveId numToStr config modelString temperature sp_idx =
     (let id1 = (case temperature of
                   Some t \<Rightarrow> modelString @ ''[temp:'' @ toFixed1 numToStr t @ '']''
                 | None \<Rightarrow> modelString);
          id2 = (if (case systems config of Some ss \<Rightarrow> 1 < length ss | None \<Rightarrow> False)
                 then id1 @ ''[sp_idx:'' @ digitsOf sp_idx @ '']''
                 else id1)
      in id2)"

definition messagesForLlm :: "ConversationMessage list \<Rightarrow> jsstr \<Rightarrow> ConversationMessage list" where
  "messagesForLlm promptMessages sysPrompt =
     (case sysPrompt of
        Str s \<Rightarrow>
          if s \<noteq> [] \<and> find (\<lambda>m. role m = ''system'') promptMessages = None
          then \<lparr>role = ''system'', content = s\<rparr> # promptMessages
          else promptMessages
      | _ \<Rightarrow> promptMessages)"

text \<open>\<open>error.message || String(error)\<close>, which raises on a nullish thrown value.\<close>

definition thrownText :: "Thrown \<Rightarrow> Thrown + string" where
  "thrownText error =
     (case errorMessageOf error of
        Inl typeError \<Rightarrow> Inl typeError
      | Inr (Some m) \<Rightarrow> if m \<noteq> [] then Inr m else Inr (stringOf error)
      | Inr None \<Rightarrow> Inr (stringOf error))"

text \<open>
  One generation task: the body of the function handed to the limiter. It returns the
  key and the record it hands to \<open>modelResponses.set\<close>, or \<open>Inl\<close> when its catch
  block itself raises; then nothing is stored and the task's promise rejects.
\<close>

definition generationTask ::
  "GenerationDeps \<Rightarrow> bool \<Rightarrow> ComparisonConfig \<Rightarrow> PromptConfig \<Rightarrow> ConversationMessage list \<Rightarrow>
   string \<Rightarrow> number option \<Rightarrow> jsstr \<Rightarrow> nat \<Rightarrow> Thrown + string \<times> ResponseRecord" where
  "generationTask deps cache config promptConfig promptMessages modelString tempValue
       systemPromptValue sp_idx =
     (let sysPrompt = systemPromptToUse config promptConfig systemPromptValue;
          temperature = temperatureForThisCall (DEFAULT_TEMPERATURE deps) config promptConfig tempValue;
          effId = finalEffectiveId (numberToString deps) config modelString temperature sp_idx;
          msgs = messagesForLlm promptMessages sysPrompt;
          used = (case sysPrompt of Str s \<Rightarrow> Some s | _ \<Rightarrow> None)
      in case getModelResponse deps
                \<lparr>modelId = modelString, request_messages = msgs,
                 request_temperature = temperature, useCache = cache\<rparr> of
           Inr responseText \<Rightarrow>
             Inr (effId,
              \<lparr>finalAssistantResponseText = responseText,
               fullConversationHistory = msgs @ [\<lparr>role = ''assistant'', content = responseText\<rparr>],
               hasError = checkForErrors deps responseText,
               errorMessage = (if checkForErrors deps responseText
                               then Some ''Response contains error markers.'' else None),
               systemPromptUsed = used\<rparr>)
         | Inl error \<Rightarrow>
             (case thrownText error of
                Inl typeError \<Rightarrow> Inl typeError
              | Inr reason \<Rightarrow>
                  (let errMsg = ''Failed to get response for '' @ effId @ '': '' @ reason;
                       errText = ''<error>'' @ errMsg @ ''</error>''
                   in Inr (effId,
                       \<lparr>finalAssistantResponseText = errText,
                        fullConversationHistory =
                          msgs @ [\<lparr>role = ''assistant'', content = errText\<rparr>],
                        hasError = True,
                        errorMessage = Some errMsg,
                        systemPromptUsed = used\<rparr>))))"

text \<open>
  The tasks of one prompt in the order they are enqueued: models, then temperatures,
  then system prompts with their index.
\<close>

definition promptTasks :: "ComparisonConfig \<Rightarrow> (string \<times> number option \<times> jsstr \<times> nat) list" where
  "promptTasks config =
     concat (map (\<lambda>modelString.
       concat (map (\<lambda>tempValue.
         map (\<lambda>(systemPromptValue, sp_idx). (modelString, tempValue, systemPromptValue, sp_idx))
             (zip (systemPromptsToRun config) [0..<length (systemPromptsToRun config)]))
         (temperaturesToRun config)))
       (models config))"

text \<open>
  All tasks of the run in enqueue order; a prompt without a message list contributes
  none.
\<close>

definition allTasks :: "ComparisonConfig \<Rightarrow> GenerationTask list" where
  "allTasks config =
     concat (map (\<lambda>(idx, promptConfig).
                    case messages promptConfig of
                      None \<Rightarrow> []
                    | Some promptMessages \<Rightarrow>
                        map (\<lambda>task. (idx, promptConfig, promptMessages, task)) (promptTasks config))
                 (zip [0..<length (prompts config)] (prompts config)))"

text \<open>What each task does, in the order in which the tasks settle.\<close>

definition taskOutcomes ::
  "GenerationDeps \<Rightarrow> ComparisonConfig \<Rightarrow> bool \<Rightarrow> (nat \<times> (Thrown + string \<times> ResponseRecord)) list" where
  "taskOutcomes deps config cache =
     map (\<lambda>(idx, promptConfig, promptMessages, modelString, tempValue, systemPromptValue, sp_idx).
            (idx, generationTask deps cache config promptConfig promptMessages modelString
                    tempValue systemPromptValue sp_idx))
         (settleOrder deps (allTasks config))"

text \<open>\<open>Promise.all\<close> rejects with the first rejection among its tasks.\<close>

fun firstRejection :: "(nat \<times> (Thrown + 'a)) list \<Rightarrow> Thrown option" where
  "firstRejection [] = None"
| "firstRejection ((idx, Inl error) # rest) = Some error"
| "firstRejection ((idx, Inr stored) # rest) = firstRejection rest"

text \<open>
  The \<open>modelResponses\<close> map of the prompt at position \<open>idx\<close>: the
  \<open>modelResponses.set\<close> calls of its tasks, in the order they settled.
\<close>

fun storedResponses ::
  "nat \<Rightarrow> (nat \<times> (Thrown + string \<times> ResponseRecord)) list \<Rightarrow> (string \<times> ResponseRecord) list \<Rightarrow>
   (string \<times> ResponseRecord) list" where
  "storedResponses idx [] responses = responses"
| "storedResponses idx ((j, Inl error) # rest) responses = storedResponses idx rest responses"
| "storedResponses idx ((j, Inr (effId, responseData)) # rest) responses =
     storedResponses idx rest
       (if j = idx then AList.update effId responseData responses else responses)"

definition promptContainer ::
  "PromptConfig \<Rightarrow> ConversationMessage list \<Rightarrow> (string \<times> ResponseRecord) list \<Rightarrow> PromptResponseData" where
  "promptContainer promptConfig promptMessages responses =
     \<lparr>promptId = prompt_id promptConfig,
      promptText = prompt_promptText promptConfig,
      initialMessages = promptMessages,
      idealResponseText = (case idealResponse promptConfig of
                             Some s \<Rightarrow> if s \<noteq> [] then Some s else None
                           | None \<Rightarrow> None),
      modelResponses = responses\<rparr>"

text \<open>
  \<open>generateAllResponses\<close>: a prompt without a message list is skipped; every other
  prompt's container is stored under the prompt's id, a later prompt with the same id
  replacing the earlier container in the map (the replaced container's tasks still
  write to it, out of the map's reach). The function returns once every task has
  settled, and raises when a task's promise rejected.
\<close>

definition generateAllResponses ::
  "GenerationDeps \<Rightarrow> ComparisonConfig \<Rightarrow> bool \<Rightarrow> Thrown + (string \<times> PromptResponseData) list" where
  "generateAllResponses deps config cache =
     (case firstRejection (taskOutcomes deps config cache) of
        Some error \<Rightarrow> Inl error
      | None \<Rightarrow>
          Inr (fold (\<lambda>(idx, promptConfig) allResponsesMap.
                       case messages promptConfig of
                         None \<Rightarrow> allResponsesMap
                       | Some promptMessages \<Rightarrow>
                           AList.update (prompt_id promptConfig)
                             (promptContainer promptConfig promptMessages
                                (storedResponses idx (taskOutcomes deps config cache) []))
                             allResponsesMap)
                    (zip [0..<length (prompts config)] (prompts config)) []))"

section \<open>Evaluation and aggregation\<close>

text \<open>
  The result tables (similarity matrix, coverage scores, key points) are opaque to the
  pipeline: \<open>'tbl\<close>. A partial result bundle is an object whose top-level keys name
  tables; a key can be present with an undefined value (\<open>None\<close>).
\<close>

record EvaluationInput =
  promptData :: PromptResponseData
  input_config :: ComparisonConfig
  effectiveModelIds :: "string list"

record 'tbl Evaluator =
  getMethodName :: string
  evaluate :: "EvaluationInput list \<Rightarrow> Thrown + (string \<times> 'tbl option) list"

datatype PromptContext = ContextMessages "ConversationMessage list" | ContextText string

record 'tbl EvaluationResults =
  similarityMatrix :: "'tbl option"
  perPromptSimilarities :: "'tbl option"
  llmCoverageScores :: "'tbl option"

record 'tbl FinalComparisonOutputV2 =
  configId :: string
  configTitle :: string
  runLabel :: string
  timestamp :: string
  description :: "string option"
  sourceCommitSha :: "string option"
  sourceBlueprintFileName :: "string option"
  output_config :: ComparisonConfig
  evalMethodsUsed :: "string list"
  effectiveModels :: "string list"
  modelSystemPrompts :: "(string \<times> string option) list"
  promptIds :: "string list"
  promptContexts :: "(string \<times> PromptContext) list"
  extractedKeyPoints :: "'tbl option"
  allFinalAssistantResponses :: "(string \<times> (string \<times> string) list) list"
  fullConversationHistories :: "(string \<times> (string \<times> ConversationMessage list) list) list option"
  evaluationResults :: "'tbl EvaluationResults"
  errors :: "(string \<times> (string \<times> string) list) list option"

record 'tbl PipelineResult =
  data :: "'tbl FinalComparisonOutputV2"
  fileName :: "string option"

text \<open>
  What the pipeline imports or reads from its environment: the two evaluator classes
  (the second is constructed with the cache flag), the storage gateway's save (\<open>Inl\<close>
  when it throws), \<open>toSafeTimestamp\<close>, the clock's ISO timestamp, the environment
  variable \<open>STORE_FULL_HISTORY\<close>, the reserved \<open>IDEAL_MODEL_ID\<close> and the empty table
  \<open>{}\<close>.
\<close>

record 'tbl PipelineDeps =
  EmbeddingEvaluator :: "'tbl Evaluator"
  LLMCoverageEvaluator :: "bool \<Rightarrow> 'tbl Evaluator"
  saveResultToStorage :: "string \<Rightarrow> string \<Rightarrow> 'tbl FinalComparisonOutputV2 \<Rightarrow> Thrown + unit"
  toSafeTimestamp :: "string \<Rightarrow> string"
  currentTimestamp :: string
  STORE_FULL_HISTORY :: "string option"
  IDEAL_MODEL_ID :: string
  emptyTable :: 'tbl

text \<open>The local variables that the aggregation loop fills.\<close>

record Aggregation =
  acc_promptIds :: "string list"
  acc_promptContexts :: "(string \<times> PromptContext) list"
  acc_allFinalAssistantResponses :: "(string \<times> (string \<times> string) list) list"
  acc_fullConversationHistories :: "(string \<times> (string \<times> ConversationMessage list) list) list"
  acc_errors :: "(string \<times> (string \<times> string) list) list"
  effectiveModelsSet :: "string list"
  acc_modelSystemPrompts :: "(string \<times> string option) list"

definition hasAnyIdeal :: "ComparisonConfig \<Rightarrow> bool" where
  "hasAnyIdeal config =
     list_ex (\<lambda>p. case idealResponse p of Some s \<Rightarrow> s \<noteq> [] | None \<Rightarrow> False) (prompts config)"

text \<open>
  The body of the loop over one prompt's records. The two guards read
  \<open>fullConversationHistories[promptId]\<close> and \<open>errors[promptId]\<close>, which are truthy
  also for a prompt id that names an inherited property.
\<close>

definition aggregateResponse :: "string \<Rightarrow> string \<times> ResponseRecord \<Rightarrow> Aggregation \<Rightarrow> Aggregation" where
  "aggregateResponse pid entry acc =
     (case entry of (effectiveModelId, responseData) \<Rightarrow>
        acc\<lparr>effectiveModelsSet := Set_add effectiveModelId (effectiveModelsSet acc),
            acc_allFinalAssistantResponses :=
              Object_setIn pid effectiveModelId (finalAssistantResponseText responseData)
                (acc_allFinalAssistantResponses acc),
            acc_modelSystemPrompts :=
              Object_set effectiveModelId (systemPromptUsed responseData)
                (acc_modelSystemPrompts acc),
            acc_fullConversationHistories :=
              (if Object_truthyAt pid (acc_fullConversationHistories acc)
               then Object_setIn pid effectiveModelId (fullConversationHistory responseData)
                      (acc_fullConversationHistories acc)
               else acc_fullConversationHistories acc),
            acc_errors :=
              (case errorMessage responseData of
                 Some m \<Rightarrow>
                   if hasError responseData \<and> m \<noteq> []
                   then Object_setIn pid effectiveModelId m
                          (if Object_truthyAt pid (acc_errors acc) then acc_errors acc
                           else Object_set pid [] (acc_errors acc))
                   else acc_errors acc
               | None \<Rightarrow> acc_errors acc)\<rparr>)"

definition aggregatePrompt ::
  "bool \<Rightarrow> string \<Rightarrow> string \<times> PromptResponseData \<Rightarrow> Aggregation \<Rightarrow> Aggregation" where
  "aggregatePrompt storeFull ideal entry acc =
     (case entry of (pid, pdata) \<Rightarrow>
        fold (aggregateResponse pid) (modelResponses pdata)
          (acc\<lparr>acc_promptIds := acc_promptIds acc @ [pid],
               acc_promptContexts :=
                 Object_set pid
                   (if 0 < length (initialMessages pdata) then ContextMessages (initialMessages pdata)
                    else case promptText pdata of
                           Some t \<Rightarrow> if t \<noteq> [] then ContextText t
                                     else ContextText ''Error: No input context found''
                         | None \<Rightarrow> ContextText ''Error: No input context found'')
                   (acc_promptContexts acc),
               acc_allFinalAssistantResponses :=
                 (case idealResponseText pdata of
                    Some t \<Rightarrow>
                      Object_setIn pid ideal t (Object_set pid [] (acc_allFinalAssistantResponses acc))
                  | None \<Rightarrow> Object_set pid [] (acc_allFinalAssistantResponses acc)),
               acc_fullConversationHistories :=
                 (if storeFull then Object_set pid [] (acc_fullConversationHistories acc)
                  else acc_fullConversationHistories acc)\<rparr>))"

definition aggregation ::
  "bool \<Rightarrow> string \<Rightarrow> (string \<times> PromptResponseData) list \<Rightarrow> Aggregation" where
  "aggregation storeFull ideal allResponsesMap =
     fold (aggregatePrompt storeFull ideal) allResponsesMap
       \<lparr>acc_promptIds = [], acc_promptContexts = [], acc_allFinalAssistantResponses = [],
        acc_fullConversationHistories = [], acc_errors = [], effectiveModelsSet = [],
        acc_modelSystemPrompts = []\<rparr>"

text \<open>A table of a result bundle, \<open>bundle.key ?? undefined\<close>.\<close>

definition tableOf :: "(string \<times> 'tbl option) list \<Rightarrow> string \<Rightarrow> 'tbl option" where
  "tableOf bundle key = (case map_of bundle key of Some v \<Rightarrow> v | None \<Rightarrow> None)"

text \<open>
  The document \<open>finalOutput\<close> that \<open>aggregateAndSaveResults\<close> builds once the
  configuration's id and title are known to be present.
\<close>

definition finalOutput ::
  "'tbl PipelineDeps \<Rightarrow> ComparisonConfig \<Rightarrow> string \<Rightarrow> string \<Rightarrow> string \<Rightarrow>
   (string \<times> PromptResponseData) list \<Rightarrow> (string \<times> 'tbl option) list \<Rightarrow> string list \<Rightarrow>
   string option \<Rightarrow> string option \<Rightarrow> 'tbl FinalComparisonOutputV2" where
  "finalOutput deps config resolvedConfigId resolvedConfigTitle label allResponsesMap results
       methods commitSha blueprintFileName =
     (let storeFull = (STORE_FULL_HISTORY deps \<noteq> Some ''false'');
          acc = aggregation storeFull (IDEAL_MODEL_ID deps) allResponsesMap;
          modelsSet = (if hasAnyIdeal config
                       then Set_add (IDEAL_MODEL_ID deps) (effectiveModelsSet acc)
                       else effectiveModelsSet acc)
      in \<lparr>configId = resolvedConfigId,
          configTitle = resolvedConfigTitle,
          runLabel = label,
          timestamp = toSafeTimestamp deps (currentTimestamp deps),
          description = config_description config,
          sourceCommitSha = commitSha,
          sourceBlueprintFileName = blueprintFileName,
          output_config = config,
          evalMethodsUsed = methods,
          effectiveModels = sort modelsSet,
          modelSystemPrompts = acc_modelSystemPrompts acc,
          promptIds = sort (acc_promptIds acc),
          promptContexts = acc_promptContexts acc,
          extractedKeyPoints = tableOf results ''extractedKeyPoints'',
          allFinalAssistantResponses = acc_allFinalAssistantResponses acc,
          fullConversationHistories =
            (if storeFull then Some (acc_fullConversationHistories acc) else None),
          evaluationResults =
            \<lparr>similarityMatrix = tableOf results ''similarityMatrix'',
             perPromptSimilarities = tableOf results ''perPromptSimilarities'',
             llmCoverageScores = tableOf results ''llmCoverageScores''\<rparr>,
          errors = (if 0 < length (acc_errors acc) then Some (acc_errors acc) else None)\<rparr>)"

definition newError :: "string \<Rightarrow> Thrown" where
  "newError msg = ThrownValue (Some msg) (''Error: '' @ msg)"

text \<open>
  \<open>aggregateAndSaveResults\<close>. The save is inside a try block whose handler logs
  \<open>error.message\<close> and returns the document with a null file name; reading the
  message of a nullish thrown value raises inside the handler.
\<close>

definition aggregateAndSaveResults ::
  "'tbl PipelineDeps \<Rightarrow> ComparisonConfig \<Rightarrow> string \<Rightarrow> (string \<times> PromptResponseData) list \<Rightarrow>
   (string \<times> 'tbl option) list \<Rightarrow> string list \<Rightarrow> string option \<Rightarrow> string option \<Rightarrow>
   Thrown + 'tbl PipelineResult" where
  "aggregateAndSaveResults deps config label allResponsesMap results methods commitSha
       blueprintFileName =
     (case config_id config of
        None \<Rightarrow> Inl (newError ''Blueprint ID is missing unexpectedly after validation.'')
      | Some resolvedConfigId \<Rightarrow>
          if resolvedConfigId = []
          then Inl (newError ''Blueprint ID is missing unexpectedly after validation.'')
          else
            (case config_title config of
               None \<Rightarrow> Inl (newError ''Blueprint Title is missing unexpectedly after validation.'')
             | Some resolvedConfigTitle \<Rightarrow>
                 if resolvedConfigTitle = []
                 then Inl (newError ''Blueprint Title is missing unexpectedly after validation.'')
                 else
                   (let out = finalOutput deps config resolvedConfigId resolvedConfigTitle label
                                allResponsesMap results methods commitSha blueprintFileName;
                        name = label @ ''_'' @ toSafeTimestamp deps (currentTimestamp deps)
                                 @ ''_comparison.json''
                    in case saveResultToStorage deps resolvedConfigId name out of
                         Inr saved \<Rightarrow> Inr \<lparr>data = out, fileName = Some name\<rparr>
                       | Inl error \<Rightarrow>
                           (case errorMessageOf error of
                              Inl typeError \<Rightarrow> Inl typeError
                            | Inr logged \<Rightarrow> Inr \<lparr>data = out, fileName = None\<rparr>))))"

definition evaluationInputs ::
  "ComparisonConfig \<Rightarrow> (string \<times> PromptResponseData) list \<Rightarrow> EvaluationInput list" where
  "evaluationInputs config allResponsesMap =
     map (\<lambda>(pid, pdata).
            \<lparr>promptData = pdata, input_config = config,
             effectiveModelIds = map fst (modelResponses pdata)\<rparr>)
         allResponsesMap"

definition chosenEvaluators :: "'tbl PipelineDeps \<Rightarrow> bool \<Rightarrow> string list \<Rightarrow> 'tbl Evaluator list" where
  "chosenEvaluators deps cache evalMethods =
     filter (\<lambda>e. List.member evalMethods (getMethodName e))
       [EmbeddingEvaluator deps, LLMCoverageEvaluator deps cache]"

text \<open>\<open>{ ...a, ...b }\<close>: every key of \<open>b\<close> is written over \<open>a\<close>.\<close>

definition spread :: "(string \<times> 'v) list \<Rightarrow> (string \<times> 'v) list \<Rightarrow> (string \<times> 'v) list" where
  "spread a b = fold (\<lambda>(k, v). AList.update k v) b a"

text \<open>The loop over the chosen evaluators; an evaluator that throws ends the run.\<close>

fun runEvaluators ::
  "'tbl Evaluator list \<Rightarrow> EvaluationInput list \<Rightarrow> (string \<times> 'tbl option) list \<Rightarrow>
   Thrown + (string \<times> 'tbl option) list" where
  "runEvaluators [] inputs combined = Inr combined"
| "runEvaluators (e # es) inputs combined =
     (case evaluate e inputs of
        Inl error \<Rightarrow> Inl error
      | Inr results \<Rightarrow> runEvaluators es inputs (spread combined results))"

definition initialEvaluationResults :: "'tbl \<Rightarrow> (string \<times> 'tbl option) list" where
  "initialEvaluationResults tbl0 =
     [(''llmCoverageScores'', Some tbl0), (''similarityMatrix'', Some tbl0),
      (''perPromptSimilarities'', Some tbl0), (''extractedKeyPoints'', Some tbl0)]"

definition executeComparisonPipeline ::
  "GenerationDeps \<Rightarrow> 'tbl PipelineDeps \<Rightarrow> ComparisonConfig \<Rightarrow> string \<Rightarrow> string list \<Rightarrow>
   (string \<times> PromptResponseData) list option \<Rightarrow> bool \<Rightarrow> string option \<Rightarrow> string option \<Rightarrow>
   Thrown + 'tbl PipelineResult" where
  "executeComparisonPipeline gdeps deps config label evalMethods existingResponsesMap cache
       commitSha blueprintFileName =
     (case (case existingResponsesMap of
              Some m \<Rightarrow> Inr m
            | None \<Rightarrow> generateAllResponses gdeps config cache) of
        Inl error \<Rightarrow> Inl error
      | Inr allResponsesMap \<Rightarrow>
          (case runEvaluators (chosenEvaluators deps cache evalMethods)
                  (evaluationInputs config allResponsesMap)
                  (initialEvaluationResults (emptyTable deps)) of
             Inl error \<Rightarrow> Inl error
           | Inr combinedEvaluationResults \<Rightarrow>
               aggregateAndSaveResults deps config label allResponsesMap
                 combinedEvaluationResults evalMethods commitSha blueprintFileName))"

section \<open>The effective-model-id codec\<close>

text \<open>
  Modelled from the spec: \<open>parseEffectiveModelId\<close> of \<open>modelIdUtils.ts\<close>, which is not
  among the sources (only its test file is). The spec's section 4.1 has it inspect the
  tail of the string for one trailing bracketed tag, \<open>[sys:<token>]\<close> or
  \<open>[temp:<number>]\<close>, strip it, record it by its type, and repeat until the tail matches
  neither; what remains is the base id, and the legacy alias \<open>IDEAL_BENCHMARK\<close> stands
  for the ideal model's base id. The spec leaves the two payload grammars open: here a
  token is a non-empty run of ASCII letters and digits, and a number is an unsigned
  decimal numeral, as in all of the spec's and the test's examples.
\<close>

record ParsedModelId =
  baseId :: string
  parsedTemperature :: "number option"
  systemPromptHash :: "string option"

definition isTokenChar :: "char \<Rightarrow> bool" where
  "isTokenChar c =
     (c \<in> set ''0123456789abcdefghijklmnopqrstuvwxyzABCDEFGHIJKLMNOPQRSTUVWXYZ'')"

definition isToken :: "string \<Rightarrow> bool" where
  "isToken s = (s \<noteq> [] \<and> list_all isTokenChar s)"

text \<open>The number a numeral \<open>digits\<close> or \<open>digits.digits\<close> denotes; \<open>None\<close> for other text.\<close>

definition numberOfText :: "string \<Rightarrow> number option" where
  "numberOfText s =
     (let ip = takeWhile isDigit s; rest = dropWhile isDigit s
      in if ip = [] then None
         else case rest of
                [] \<Rightarrow> Some (Finite (of_nat (natOfDigits ip)))
              | c # fp \<Rightarrow>
                  if c = CHR ''.'' \<and> fp \<noteq> [] \<and> list_all isDigit fp
                  then Some (Finite (of_nat (natOfDigits ip) + of_nat (natOfDigits fp) / 10 ^ length fp))
                  else None)"

text \<open>
  A string \<open>rest[inner]\<close> whose \<open>inner\<close> has no opening bracket splits into \<open>rest\<close> and
  \<open>inner\<close>.
\<close>

definition stripTrailingTag :: "string \<Rightarrow> (string \<times> string) option" where
  "stripTrailingTag s =
     (case rev s of
        [] \<Rightarrow> None
      | c # r \<Rightarrow>
          if c = CHR '']''
          then (case dropWhile (\<lambda>x. x \<noteq> CHR ''['') r of
                  [] \<Rightarrow> None
                | _ # pre \<Rightarrow> Some (rev pre, rev (takeWhile (\<lambda>x. x \<noteq> CHR ''['') r)))
          else None)"

definition sysTagToken :: "string \<Rightarrow> string option" where
  "sysTagToken inner =
     (if take 4 inner = ''sys:'' \<and> isToken (drop 4 inner) then Some (drop 4 inner) else None)"

definition tempTagNumber :: "string \<Rightarrow> number option" where
  "tempTagNumber inner = (if take 5 inner = ''temp:'' then numberOfText (drop 5 inner) else None)"

lemma stripTrailingTag_shorter:
  "stripTrailingTag s = Some (rest, inner) \<Longrightarrow> length rest < length s"
proof -
  assume a: "stripTrailingTag s = Some (rest, inner)"
  then obtain c r where cr: "rev s = c # r"
    by (auto simp: stripTrailingTag_def split: list.splits)
  with a obtain x where "dropWhile (\<lambda>x. x \<noteq> CHR ''['') r = x # rev rest"
    by (auto simp: stripTrailingTag_def split: list.splits if_splits)
  then have "length rest < length r + 1"
    using length_dropWhile_le [of "\<lambda>x. x \<noteq> CHR ''[''" r] by simp
  moreover from cr have "length s = length r + 1"
    by (metis length_rev length_Cons Suc_eq_plus1)
  ultimately show ?thesis by simp
qed

function parseTags :: "string \<Rightarrow> number option \<Rightarrow> string option \<Rightarrow> ParsedModelId" where
  "parseTags s t h =
     (case stripTrailingTag s of
        None \<Rightarrow> \<lparr>baseId = s, parsedTemperature = t, systemPromptHash = h\<rparr>
      | Some (rest, inner) \<Rightarrow>
          (case sysTagToken inner of
             Some token \<Rightarrow> parseTags rest t (Some token)
           | None \<Rightarrow>
               (case tempTagNumber inner of
                  Some v \<Rightarrow> parseTags rest (Some v) h
                | None \<Rightarrow> \<lparr>baseId = s, parsedTemperature = t, systemPromptHash = h\<rparr>)))"
  by pat_completeness auto
termination
  by (relation "measure (\<lambda>(s, t, h). length s)") (auto dest: stripTrailingTag_shorter)

declare parseTags.simps [simp del]

definition parseEffectiveModelId :: "string \<Rightarrow> string \<Rightarrow> ParsedModelId" where
  "parseEffectiveModelId idealBase effectiveModelId =
     (let parsed = parseTags effectiveModelId None None
      in if baseId parsed = ''IDEAL_BENCHMARK'' then parsed\<lparr>baseId := idealBase\<rparr> else parsed)"

text \<open>Whether the parser would strip a tag from the end of a string.\<close>

definition endsWithTag :: "string \<Rightarrow> bool" where
  "endsWithTag s =
     (case stripTrailingTag s of
        None \<Rightarrow> False
      | Some (rest, inner) \<Rightarrow> sysTagToken inner \<noteq> None \<or> tempTagNumber inner \<noteq> None)"

section \<open>Concrete configurations\<close>

text \<open>Small inputs on which the theorems below are exercised.\<close>

definition userTurn :: ConversationMessage where
  "userTurn = \<lparr>role = ''user'', content = ''hi''\<rparr>"

definition promptWithOverride :: PromptConfig where
  "promptWithOverride =
     \<lparr>prompt_id = ''p1'', prompt_promptText = None, messages = Some [userTurn],
      idealResponse = None, prompt_system = Undefined,
      prompt_temperature = Some (Finite (1 / 5))\<rparr>"

definition promptWithIdeal :: PromptConfig where
  "promptWithIdeal =
     \<lparr>prompt_id = ''p2'', prompt_promptText = None, messages = Some [userTurn],
      idealResponse = Some ''gold'', prompt_system = Undefined, prompt_temperature = None\<rparr>"

definition baseConfig :: ComparisonConfig where
  "baseConfig =
     \<lparr>config_id = Some ''cfg'', config_title = Some ''Title'', config_description = None,
      prompts = [promptWithOverride], models = [''m''],
      config_temperature = Some (Finite (7 / 10)),
      temperatures = None, config_system = Undefined, systems = None, concurrency = None\<rparr>"



definition answeringProvider :: GenerationDeps where
  "answeringProvider =
     \<lparr>getModelResponse = (\<lambda>r. Inr ''ok''),
      checkForErrors = (\<lambda>s. False), DEFAULT_TEMPERATURE = Finite 0, numberToString = (\<lambda>x. []),
      settleOrder = (\<lambda>tasks. tasks)\<rparr>"

definition answeringLastFirst :: GenerationDeps where
  "answeringLastFirst = answeringProvider\<lparr>settleOrder := rev\<rparr>"

definition failingStorage :: "nat PipelineDeps" where
  "failingStorage =
     \<lparr>EmbeddingEvaluator =
        \<lparr>getMethodName = ''embedding'', evaluate = (\<lambda>inputs. Inr [(''similarityMatrix'', Some 1)])\<rparr>,
      LLMCoverageEvaluator =
        (\<lambda>cache. \<lparr>getMethodName = ''llm-coverage'',
                  evaluate = (\<lambda>inputs. Inr [(''similarityMatrix'', Some 2)])\<rparr>),
      saveResultToStorage =
        (\<lambda>cid name doc. Inl (ThrownValue (Some ''disk full'') ''Error: disk full'')),
      toSafeTimestamp = (\<lambda>s. s), currentTimestamp = ''T'', STORE_FULL_HISTORY = None,
      IDEAL_MODEL_ID = ''IDEAL_MODEL_ID'', emptyTable = 0\<rparr>"


definition acceptingStorage :: "nat PipelineDeps" where
  "acceptingStorage = failingStorage\<lparr>saveResultToStorage := (\<lambda>cid name doc. Inr ())\<rparr>"

text \<open>Two temperatures, both exact doubles, that \<open>toFixed(1)\<close> renders alike.\<close>

definition collidingConfig :: ComparisonConfig where
  "collidingConfig = baseConfig\<lparr>temperatures := Some [Finite (1 / 2), Finite (17 / 32)]\<rparr>"

text \<open>The temperature that the JSON text \<open>1e999\<close> denotes.\<close>

definition infiniteTemperatureConfig :: ComparisonConfig where
  "infiniteTemperatureConfig = baseConfig\<lparr>temperatures := Some [PosInfinity]\<rparr>"

definition idealConfig :: ComparisonConfig where
  "idealConfig = baseConfig\<lparr>prompts := [promptWithOverride, promptWithIdeal]\<rparr>"

text \<open>Pre-generated responses with one record stored under the reserved ideal-model id.\<close>

definition reservedKeyResponses :: "(string \<times> PromptResponseData) list" where
  "reservedKeyResponses =
     [(''p1'',
       \<lparr>promptId = ''p1'', promptText = None, initialMessages = [userTurn],
        idealResponseText = None,
        modelResponses =
          [(''IDEAL_MODEL_ID'',
            \<lparr>finalAssistantResponseText = ''ok'',
             fullConversationHistory = [userTurn, \<lparr>role = ''assistant'', content = ''ok''\<rparr>],
             hasError = False, errorMessage = None, systemPromptUsed = None\<rparr>)]\<rparr>)]"

section \<open>Properties of tag normalisation\<close>

lemma isTagChar_not_space: "isTagChar c \<Longrightarrow> \<not> isWhiteSpace c"
  unfolding isTagChar_def isWhiteSpace_def by (auto simp: word_le_nat_alt)

lemma isTagChar_lower: "isTagChar c \<Longrightarrow> \<not> (0x41 \<le> c \<and> c \<le> 0x5A) \<and> c < 0x80"
  unfolding isTagChar_def by (auto simp: word_le_nat_alt word_less_nat_alt)

lemma trim_clean:
  assumes "list_all isTagChar s"
  shows "trim s = s"
proof -
  have keep: "dropWhile isWhiteSpace xs = xs" if "list_all isTagChar xs" for xs
    using that by (cases xs) (auto dest: isTagChar_not_space)
  from assms have "list_all isTagChar (rev s)"
    by (simp add: list_all_iff)
  with assms keep show ?thesis
    by (simp add: trim_def)
qed

lemma concat_singletons: "concat (map (\<lambda>i. [g i]) xs) = map g xs"
  by (induction xs) simp_all

lemma toLowerCase_clean:
  assumes "list_all isTagChar s"
  shows "toLowerCase f s = s"
proof -
  have A: "map (\<lambda>i. let c = s ! i in
                        if 0x41 \<le> c \<and> c \<le> 0x5A then [c + 0x20]
                        else if c < 0x80 then [c]
                        else f s i) [0..<length s] = map (\<lambda>i. [s ! i]) [0..<length s]"
    using assms isTagChar_lower by (auto simp: list_all_length Let_def)
  have B: "concat (map (\<lambda>i. [s ! i]) [0..<length s]) = s"
    by (simp only: concat_singletons map_nth)
  show ?thesis unfolding toLowerCase_def A B ..
qed

lemma replaceWhitespaceRuns_clean: "list_all isTagChar s \<Longrightarrow> replaceWhitespaceRuns s = s"
  by (induction s) (auto dest: isTagChar_not_space)

lemma normalizeTag_clean: "list_all isTagChar s \<Longrightarrow> normalizeTag f s = s"
  by (simp add: normalizeTag_def trim_clean toLowerCase_clean replaceWhitespaceRuns_clean
      list_all_iff)

lemma normalizeTag_chars: "list_all isTagChar (normalizeTag f t)"
  by (simp add: normalizeTag_def list_all_iff)

text \<open>
  C10. \<open>normalizeTag\<close> is idempotent: normalising an already normalised tag returns it
  unchanged, for every input string and whatever \<open>toLowerCase\<close> does outside ASCII.
\<close>

theorem normalizeTag_idempotent:
  "normalizeTag lowerNonAscii (normalizeTag lowerNonAscii t) = normalizeTag lowerNonAscii t"
  by (rule normalizeTag_clean [OF normalizeTag_chars])

section \<open>Properties of a generation task\<close>

lemma temperatureForThisCall_defined:
  "\<exists>t. temperatureForThisCall d config promptConfig tempValue = Some t"
  by (cases tempValue; cases "prompt_temperature promptConfig"; cases "config_temperature config")
     (simp_all add: temperatureForThisCall_def)

lemma generationTask_key:
  assumes "generationTask deps cache config promptConfig msgs modelString tempValue sv sp_idx =
             Inr (effId, responseData)"
  shows "effId = finalEffectiveId (numberToString deps) config modelString
           (temperatureForThisCall (DEFAULT_TEMPERATURE deps) config promptConfig tempValue) sp_idx"
  using assms by (auto simp: generationTask_def Let_def split: sum.splits)

lemma digitChar_isDigit: "isDigit (digitChar d)"
proof -
  define m where "m = d mod 10"
  have "m < 10" by (simp add: m_def)
  then have "m = 0 \<or> m = 1 \<or> m = 2 \<or> m = 3 \<or> m = 4 \<or> m = 5 \<or> m = 6 \<or> m = 7 \<or> m = 8 \<or> m = 9"
    by arith
  then show ?thesis
    unfolding digitChar_def isDigit_def m_def [symmetric] by (elim disjE) simp_all
qed

lemma digitsOf_digits: "list_all isDigit (digitsOf n)"
proof (induction n rule: digitsOf.induct)
  case (1 n)
  then show ?case
    by (subst digitsOf.simps) (simp add: digitChar_isDigit)
qed

lemma digitsOf_nonempty: "digitsOf n \<noteq> []"
  by (subst digitsOf.simps) simp

lemma isDigit_not_minus: "isDigit c \<Longrightarrow> c \<noteq> CHR ''-''"
  by (auto simp: isDigit_def)

lemma oneDecimalDigit_body:
  assumes "ds \<noteq> []" "list_all isDigit ds" "isDigit d"
  shows "oneDecimalDigit (ds @ ''.'' @ [d])" and "oneDecimalDigit (''-'' @ ds @ ''.'' @ [d])"
proof -
  from assms obtain c r where ds: "ds = c # r" by (cases ds) auto
  with assms have c: "c \<noteq> CHR ''-''" by (simp add: isDigit_not_minus)
  from assms have len: "Suc 0 \<le> length ds" by (cases ds) auto
  have b: "butlast (butlast (ds @ ''.'' @ [d])) = ds"
    by (simp add: butlast_append)
  have l: "last (butlast (ds @ ''.'' @ [d])) = CHR ''.''"
    by (simp add: butlast_append)
  show "oneDecimalDigit (ds @ ''.'' @ [d])"
    using assms c b l len unfolding oneDecimalDigit_def ds by (simp add: Let_def)
  show "oneDecimalDigit (''-'' @ ds @ ''.'' @ [d])"
    using assms b l len unfolding oneDecimalDigit_def by (simp add: Let_def)
qed

lemma toFixed1_oneDecimalDigit:
  "\<bar>q\<bar> < 10 ^ 21 \<Longrightarrow> oneDecimalDigit (toFixed1 f (Finite q))"
  using oneDecimalDigit_body [OF digitsOf_nonempty digitsOf_digits digitChar_isDigit]
  by (simp add: toFixed1_def Let_def)

lemma finalEffectiveId_unfold:
  "finalEffectiveId f config m (Some t) i =
     (m @ ''[temp:'' @ toFixed1 f t @ '']'') @
       (if \<exists>ss. systems config = Some ss \<and> 1 < length ss
        then ''[sp_idx:'' @ digitsOf i @ '']'' else [])"
proof (cases "systems config")
  case None
  then show ?thesis by (simp add: finalEffectiveId_def)
next
  case (Some ss)
  then show ?thesis by (simp add: finalEffectiveId_def)
qed

text \<open>
  C9 as stated fails for a temperature that \<open>toFixed(1)\<close> does not write with one
  decimal digit. The JSON text \<open>1e999\<close> is the number \<open>Infinity\<close>, passes the
  configuration's validation and gives the key \<open>m[temp:Infinity]\<close>; and from \<open>10^21\<close> on
  a finite temperature is rendered by \<open>Number::toString\<close>, in exponent notation.
\<close>

theorem temperature_tag_without_decimal_digit:
  "map_sum (\<lambda>error. error) (map (\<lambda>(pid, pdata). (pid, map fst (modelResponses pdata))))
     (generateAllResponses answeringProvider infiniteTemperatureConfig False) =
     Inr [(''p1'', [''m[temp:Infinity]''])] \<and>
   \<not> oneDecimalDigit ''Infinity'' \<and>
   (\<forall>f. toFixed1 f (Finite (10 ^ 21)) = f (10 ^ 21))"
proof -
  have "map_sum (\<lambda>error. error) (map (\<lambda>(pid, pdata). (pid, map fst (modelResponses pdata))))
          (generateAllResponses answeringProvider infiniteTemperatureConfig False) =
          Inr [(''p1'', [''m[temp:Infinity]''])]"
    by code_simp
  moreover have "\<not> oneDecimalDigit ''Infinity''"
    by code_simp
  moreover have "\<forall>f. toFixed1 f (Finite (10 ^ 21)) = f (10 ^ 21)"
    by (simp add: toFixed1_def)
  ultimately show ?thesis by (intro conjI)
qed

text \<open>
  C9, amended. Every task resolves a defined temperature \<open>t\<close>, and the key under which
  it stores its record is the model id, then the tag \<open>[temp:...]\<close> holding the
  \<open>toFixed(1)\<close> rendering of \<open>t\<close> (the tag is never omitted), then \<open>[sp_idx:i]\<close>
  exactly when the configuration lists more than one system prompt. The rendering has
  exactly one decimal digit when \<open>t\<close> is finite and below \<open>10^21\<close> in magnitude.
\<close>

theorem effective_id_has_temperature_tag:
  "\<exists>t. temperatureForThisCall (DEFAULT_TEMPERATURE deps) config promptConfig tempValue = Some t \<and>
       finalEffectiveId (numberToString deps) config modelString (Some t) sp_idx =
         modelString @ ''[temp:'' @ toFixed1 (numberToString deps) t @ '']'' @
           (if \<exists>ss. systems config = Some ss \<and> 1 < length ss
            then ''[sp_idx:'' @ digitsOf sp_idx @ '']'' else []) \<and>
       (\<forall>effId responseData.
          generationTask deps cache config promptConfig msgs modelString tempValue sv sp_idx =
            Inr (effId, responseData) \<longrightarrow>
          effId = finalEffectiveId (numberToString deps) config modelString (Some t) sp_idx) \<and>
       (\<forall>q. t = Finite q \<and> \<bar>q\<bar> < 10 ^ 21 \<longrightarrow>
          oneDecimalDigit (toFixed1 (numberToString deps) t))"
proof -
  obtain t where t: "temperatureForThisCall (DEFAULT_TEMPERATURE deps) config promptConfig tempValue = Some t"
    using temperatureForThisCall_defined by blast
  have shape: "finalEffectiveId (numberToString deps) config modelString (Some t) sp_idx =
         modelString @ ''[temp:'' @ toFixed1 (numberToString deps) t @ '']'' @
           (if \<exists>ss. systems config = Some ss \<and> 1 < length ss
            then ''[sp_idx:'' @ digitsOf sp_idx @ '']'' else [])"
    unfolding finalEffectiveId_unfold by simp
  have stored: "\<forall>effId responseData.
          generationTask deps cache config promptConfig msgs modelString tempValue sv sp_idx =
            Inr (effId, responseData) \<longrightarrow>
          effId = finalEffectiveId (numberToString deps) config modelString (Some t) sp_idx"
    using generationTask_key [of deps cache config promptConfig msgs modelString tempValue sv sp_idx]
    unfolding t by blast
  have dec: "\<forall>q. t = Finite q \<and> \<bar>q\<bar> < 10 ^ 21 \<longrightarrow>
          oneDecimalDigit (toFixed1 (numberToString deps) t)"
    using toFixed1_oneDecimalDigit by blast
  from t shape stored dec show ?thesis
    by (intro exI [of _ t] conjI)
qed

theorem effective_id_has_temperature_tag_witness:
  "generationTask answeringProvider False
     (baseConfig\<lparr>systems := Some [Str ''be brief'', Str ''be formal'']\<rparr>)
     promptWithOverride [userTurn] ''m'' None (Str ''be formal'') 1 =
     Inr (''m[temp:0.2][sp_idx:1]'',
          \<lparr>finalAssistantResponseText = ''ok'',
           fullConversationHistory =
             [\<lparr>role = ''system'', content = ''be formal''\<rparr>, userTurn,
              \<lparr>role = ''assistant'', content = ''ok''\<rparr>],
           hasError = False, errorMessage = None, systemPromptUsed = Some ''be formal''\<rparr>) \<and>
   oneDecimalDigit ''0.2''"
proof -
  let ?config = "baseConfig\<lparr>systems := Some [Str ''be brief'', Str ''be formal'']\<rparr>"
  let ?stored = "\<lparr>finalAssistantResponseText = ''ok'',
           fullConversationHistory =
             [\<lparr>role = ''system'', content = ''be formal''\<rparr>, userTurn,
              \<lparr>role = ''assistant'', content = ''ok''\<rparr>],
           hasError = False, errorMessage = None, systemPromptUsed = Some ''be formal''\<rparr>"
  obtain t where
    t: "temperatureForThisCall (DEFAULT_TEMPERATURE answeringProvider) ?config promptWithOverride None = Some t"
    and shape: "finalEffectiveId (numberToString answeringProvider) ?config ''m'' (Some t) 1 =
         ''m'' @ ''[temp:'' @ toFixed1 (numberToString answeringProvider) t @ '']'' @
           (if \<exists>ss. systems ?config = Some ss \<and> 1 < length ss
            then ''[sp_idx:'' @ digitsOf 1 @ '']'' else [])"
    and stored: "\<forall>effId responseData.
          generationTask answeringProvider False ?config promptWithOverride [userTurn] ''m'' None
            (Str ''be formal'') 1 = Inr (effId, responseData) \<longrightarrow>
          effId = finalEffectiveId (numberToString answeringProvider) ?config ''m'' (Some t) 1"
    and dec: "\<forall>q. t = Finite q \<and> \<bar>q\<bar> < 10 ^ 21 \<longrightarrow>
          oneDecimalDigit (toFixed1 (numberToString answeringProvider) t)"
    using effective_id_has_temperature_tag
      [of answeringProvider ?config promptWithOverride None "''m''" 1 False "[userTurn]"
          "Str ''be formal''"]
    by blast
  have "temperatureForThisCall (DEFAULT_TEMPERATURE answeringProvider) ?config promptWithOverride None
          = Some (Finite (1 / 5))"
    by code_simp
  with t have t_eq: "t = Finite (1 / 5)" by simp
  have r: "toFixed1 (numberToString answeringProvider) (Finite (1 / 5)) = ''0.2''"
    by code_simp
  have d: "digitsOf 1 = ''1''"
    by code_simp
  have s: "\<exists>ss. systems ?config = Some ss \<and> 1 < length ss"
    by (simp add: baseConfig_def)
  have b: "\<bar>1 / 5 :: rat\<bar> < 10 ^ 21"
    by simp
  have run: "map_sum (\<lambda>error. error) snd
               (generationTask answeringProvider False ?config promptWithOverride [userTurn]
                  ''m'' None (Str ''be formal'') 1) = Inr ?stored"
    by code_simp
  then obtain effId where task: "generationTask answeringProvider False ?config promptWithOverride
               [userTurn] ''m'' None (Str ''be formal'') 1 = Inr (effId, ?stored)"
    by (cases "generationTask answeringProvider False ?config promptWithOverride
               [userTurn] ''m'' None (Str ''be formal'') 1") auto
  from stored task have "effId = finalEffectiveId (numberToString answeringProvider) ?config ''m'' (Some t) 1"
    by blast
  with shape have "effId = ''m[temp:0.2][sp_idx:1]''"
    unfolding t_eq r d using s by simp
  moreover from dec [rule_format, of "1 / 5"] t_eq b r have "oneDecimalDigit ''0.2''"
    by simp
  ultimately show ?thesis using task by simp
qed

text \<open>
  C5, at a configuration with a global temperature of 0.7, no temperatures array, and a
  prompt that overrides the temperature with 0.2: the list of temperatures to run is
  the global temperature alone, the task resolves 0.7, and the record is stored under
  \<open>m[temp:0.7]\<close>. The prompt's override is not used.
\<close>

theorem global_temperature_shadows_prompt_override:
  "prompt_temperature promptWithOverride = Some (Finite (1 / 5)) \<and>
   temperaturesToRun baseConfig = [Some (Finite (7 / 10))] \<and>
   temperatureForThisCall (DEFAULT_TEMPERATURE answeringProvider) baseConfig promptWithOverride
     (Some (Finite (7 / 10))) = Some (Finite (7 / 10)) \<and>
   map_sum (\<lambda>error. error) (map (\<lambda>(pid, pdata). (pid, map fst (modelResponses pdata))))
     (generateAllResponses answeringProvider baseConfig False) = Inr [(''p1'', [''m[temp:0.7]''])]"
  by code_simp

lemma find_None_list_all: "(find P xs = None) = list_all (\<lambda>x. \<not> P x) xs"
  by (induction xs) simp_all

text \<open>
  C6 as stated fails when no system prompt is configured, or the resolved one is \<open>null\<close>
  or the empty string: the prompt's messages hold no system-role message, and nothing
  is prepended.
\<close>

theorem system_prompt_not_prepended_when_empty:
  "find (\<lambda>m. role m = ''system'') [userTurn] = None \<and>
   systemPromptToUse baseConfig promptWithOverride Undefined = Undefined \<and>
   messagesForLlm [userTurn] (systemPromptToUse baseConfig promptWithOverride Undefined) = [userTurn] \<and>
   systemPromptToUse (baseConfig\<lparr>config_system := Str []\<rparr>) promptWithOverride Undefined = Str [] \<and>
   messagesForLlm [userTurn]
     (systemPromptToUse (baseConfig\<lparr>config_system := Str []\<rparr>) promptWithOverride Undefined)
     \<noteq> \<lparr>role = ''system'', content = []\<rparr> # [userTurn] \<and>
   messagesForLlm [userTurn] Null = [userTurn]"
  by code_simp

text \<open>
  C6, amended. The message list sent to the provider is the prompt's list with the
  resolved system prompt prepended as a system-role message when that prompt is a
  non-empty string and the prompt's list has no system-role message; in every other case
  it is the prompt's list unchanged.
\<close>

theorem system_prompt_prepended_iff:
  "messagesForLlm promptMessages (systemPromptToUse config promptConfig sv) =
     (if truthy (systemPromptToUse config promptConfig sv) \<and>
         list_all (\<lambda>m. role m \<noteq> ''system'') promptMessages
      then \<lparr>role = ''system'',
            content = (case systemPromptToUse config promptConfig sv of Str s \<Rightarrow> s | _ \<Rightarrow> [])\<rparr>
           # promptMessages
      else promptMessages)"
  by (cases "systemPromptToUse config promptConfig sv")
     (simp_all add: messagesForLlm_def find_None_list_all)

theorem system_prompt_prepended_iff_witness:
  "messagesForLlm [userTurn]
     (systemPromptToUse (baseConfig\<lparr>config_system := Str ''be brief''\<rparr>) promptWithOverride Undefined) =
     [\<lparr>role = ''system'', content = ''be brief''\<rparr>, userTurn] \<and>
   messagesForLlm [\<lparr>role = ''system'', content = ''own''\<rparr>, userTurn]
     (systemPromptToUse (baseConfig\<lparr>config_system := Str ''be brief''\<rparr>) promptWithOverride Undefined) =
     [\<lparr>role = ''system'', content = ''own''\<rparr>, userTurn]"
proof -
  let ?config = "baseConfig\<lparr>config_system := Str ''be brief''\<rparr>"
  have s: "systemPromptToUse ?config promptWithOverride Undefined = Str ''be brief''"
    by code_simp
  show ?thesis
    using system_prompt_prepended_iff [of "[userTurn]" ?config promptWithOverride Undefined]
      system_prompt_prepended_iff
        [of "[\<lparr>role = ''system'', content = ''own''\<rparr>, userTurn]" ?config promptWithOverride Undefined]
    unfolding s by (simp add: userTurn_def)
qed




text \<open>
  C1, at a configuration with the temperatures 0.5 and 0.53125, one prompt and one
  model: the run counts two responses to generate and runs two tasks, both tasks store
  under \<open>m[temp:0.5]\<close>, and the prompt's container ends with one record, whichever of
  the two tasks settles last.
\<close>

theorem colliding_temperatures_lose_a_record:
  "totalResponsesToGenerate collidingConfig = 2 \<and>
   map (\<lambda>(idx, outcome). map_sum (\<lambda>error. error) fst outcome)
       (taskOutcomes answeringProvider collidingConfig False) =
     [Inr ''m[temp:0.5]'', Inr ''m[temp:0.5]''] \<and>
   map_sum (\<lambda>error. error) (map (\<lambda>(pid, pdata). length (modelResponses pdata)))
     (generateAllResponses answeringProvider collidingConfig False) = Inr [1] \<and>
   map_sum (\<lambda>error. error) (map (\<lambda>(pid, pdata). length (modelResponses pdata)))
     (generateAllResponses answeringLastFirst collidingConfig False) = Inr [1]"
  by code_simp

section \<open>Merging the evaluators' results\<close>








section \<open>The final output document\<close>

lemma set_Set_add: "set (Set_add x xs) = insert x (set xs)"
  by (auto simp: Set_add_def)

lemma distinct_Set_add: "distinct xs \<Longrightarrow> distinct (Set_add x xs)"
  by (auto simp: Set_add_def)

lemma effectiveModelsSet_aggregateResponse:
  "effectiveModelsSet (aggregateResponse pid entry acc) = Set_add (fst entry) (effectiveModelsSet acc)"
  by (cases entry) (simp add: aggregateResponse_def)

lemma effectiveModelsSet_responses:
  "set (effectiveModelsSet (fold (aggregateResponse pid) rs acc)) =
     set (effectiveModelsSet acc) \<union> fst ` set rs \<and>
   (distinct (effectiveModelsSet acc) \<longrightarrow>
      distinct (effectiveModelsSet (fold (aggregateResponse pid) rs acc)))"
  by (induction rs arbitrary: acc)
     (auto simp: effectiveModelsSet_aggregateResponse set_Set_add distinct_Set_add)

lemma effectiveModelsSet_aggregatePrompt:
  "set (effectiveModelsSet (aggregatePrompt storeFull ideal entry acc)) =
     set (effectiveModelsSet acc) \<union> fst ` set (modelResponses (snd entry)) \<and>
   (distinct (effectiveModelsSet acc) \<longrightarrow>
      distinct (effectiveModelsSet (aggregatePrompt storeFull ideal entry acc)))"
  by (cases entry) (simp add: aggregatePrompt_def effectiveModelsSet_responses)

lemma effectiveModelsSet_prompts:
  "set (effectiveModelsSet (fold (aggregatePrompt storeFull ideal) arm acc)) =
     set (effectiveModelsSet acc) \<union>
       set (concat (map (\<lambda>(pid, pdata). map fst (modelResponses pdata)) arm)) \<and>
   (distinct (effectiveModelsSet acc) \<longrightarrow>
      distinct (effectiveModelsSet (fold (aggregatePrompt storeFull ideal) arm acc)))"
proof (induction arm arbitrary: acc)
  case Nil
  then show ?case by simp
next
  case (Cons entry arm)
  obtain pid pdata where entry: "entry = (pid, pdata)" by (cases entry)
  from effectiveModelsSet_aggregatePrompt [of storeFull ideal entry acc]
       Cons.IH [of "aggregatePrompt storeFull ideal entry acc"]
  show ?case by (auto simp: entry)
qed

lemma effectiveModelsSet_aggregation:
  "set (effectiveModelsSet (aggregation storeFull ideal arm)) =
     set (concat (map (\<lambda>(pid, pdata). map fst (modelResponses pdata)) arm)) \<and>
   distinct (effectiveModelsSet (aggregation storeFull ideal arm))"
  using effectiveModelsSet_prompts [of storeFull ideal arm]
  by (simp add: aggregation_def)

lemma hasAnyIdeal_iff:
  "hasAnyIdeal config = (\<exists>p \<in> set (prompts config). \<exists>s. idealResponse p = Some s \<and> s \<noteq> [])"
  by (auto simp: hasAnyIdeal_def list_ex_iff split: option.splits)

lemma effectiveModels_finalOutput:
  "sorted (effectiveModels (finalOutput deps config cid title label arm results methods sha bf)) \<and>
   distinct (effectiveModels (finalOutput deps config cid title label arm results methods sha bf)) \<and>
   set (effectiveModels (finalOutput deps config cid title label arm results methods sha bf)) =
     set (concat (map (\<lambda>(pid, pdata). map fst (modelResponses pdata)) arm)) \<union>
       (if hasAnyIdeal config then {IDEAL_MODEL_ID deps} else {})"
  using effectiveModelsSet_aggregation
          [of "STORE_FULL_HISTORY deps \<noteq> Some ''false''" "IDEAL_MODEL_ID deps" arm]
  by (simp add: finalOutput_def Let_def set_Set_add distinct_Set_add)

lemma aggregateAndSaveResults_data:
  assumes "aggregateAndSaveResults deps config label arm results methods sha bf = Inr res"
  shows "\<exists>cid title. data res = finalOutput deps config cid title label arm results methods sha bf"
  using assms
  by (auto simp: aggregateAndSaveResults_def Let_def split: option.splits if_splits sum.splits)
     blast+

lemma executeComparisonPipeline_data:
  assumes "executeComparisonPipeline gdeps deps config label evalMethods existing cache sha bf
             = Inr res"
  shows "\<exists>arm results cid title.
           (case existing of Some m \<Rightarrow> Inr m | None \<Rightarrow> generateAllResponses gdeps config cache)
             = Inr arm \<and>
           data res = finalOutput deps config cid title label arm results evalMethods sha bf"
proof -
  from assms obtain arm where
    arm: "(case existing of Some m \<Rightarrow> Inr m | None \<Rightarrow> generateAllResponses gdeps config cache)
            = Inr arm"
    by (auto simp: executeComparisonPipeline_def split: sum.splits)
  with assms obtain results where
    "aggregateAndSaveResults deps config label arm results evalMethods sha bf = Inr res"
    by (auto simp: executeComparisonPipeline_def split: sum.splits)
  from aggregateAndSaveResults_data [OF this] arm show ?thesis by blast
qed

text \<open>Every key under which a generated record is stored ends in a closing bracket.\<close>

lemma endsWithBracket_finalEffectiveId: "endsWithBracket (finalEffectiveId f config m (Some t) i)"
  unfolding finalEffectiveId_unfold by (simp add: endsWithBracket_def)

lemma generationTask_key_bracket:
  assumes "generationTask deps cache config promptConfig msgs m tv sv i = Inr (k, r)"
  shows "endsWithBracket k"
proof -
  obtain t where "temperatureForThisCall (DEFAULT_TEMPERATURE deps) config promptConfig tv = Some t"
    using temperatureForThisCall_defined by blast
  with generationTask_key [OF assms] show ?thesis
    by (simp only: endsWithBracket_finalEffectiveId)
qed

lemma taskOutcomes_key_bracket:
  assumes "(j, Inr (k, r)) \<in> set (taskOutcomes deps config cache)"
  shows "endsWithBracket k"
proof -
  from assms obtain promptConfig msgs m tv sv i where
    "generationTask deps cache config promptConfig msgs m tv sv i = Inr (k, r)"
    by (auto simp: taskOutcomes_def)
  then show ?thesis by (rule generationTask_key_bracket)
qed

lemma storedResponses_keys:
  "k \<in> fst ` set (storedResponses idx outcomes responses) \<Longrightarrow>
   k \<in> fst ` set responses \<or> (\<exists>j r. (j, Inr (k, r)) \<in> set outcomes)"
proof (induction idx outcomes responses rule: storedResponses.induct)
  case (1 idx responses)
  then show ?case by simp
next
  case (2 idx j error rest responses)
  then show ?case by auto
next
  case (3 idx j effId responseData rest responses)
  from "3.prems" have
    "k \<in> fst ` set (storedResponses idx rest
             (if j = idx then AList.update effId responseData responses else responses))"
    by simp
  from "3.IH" [OF this] show ?case
    by (auto simp: dom_update split: if_splits)
qed

lemma update_values: "(a, b) \<in> set (AList.update k v al) \<Longrightarrow> (a, b) = (k, v) \<or> (a, b) \<in> set al"
  by (induction al) (auto split: if_splits)

lemma fold_invariant:
  assumes "\<And>x acc. x \<in> set xs \<Longrightarrow> I acc \<Longrightarrow> I (f x acc)" and "I acc"
  shows "I (fold f xs acc)"
  using assms by (induction xs arbitrary: acc) auto

lemma generateAllResponses_key_bracket:
  assumes "generateAllResponses deps config cache = Inr arm"
  shows "\<forall>k \<in> set (concat (map (\<lambda>(pid, pdata). map fst (modelResponses pdata)) arm)).
           endsWithBracket k"
proof -
  let ?outs = "taskOutcomes deps config cache"
  let ?I = "\<lambda>acc. \<forall>(pid, pdata) \<in> set acc. \<forall>k \<in> fst ` set (modelResponses pdata). endsWithBracket k"
  let ?f = "\<lambda>(idx, promptConfig) allResponsesMap.
              case messages promptConfig of
                None \<Rightarrow> allResponsesMap
              | Some promptMessages \<Rightarrow>
                  AList.update (prompt_id promptConfig)
                    (promptContainer promptConfig promptMessages (storedResponses idx ?outs []))
                    allResponsesMap"
  have stored: "endsWithBracket k" if "k \<in> fst ` set (storedResponses idx ?outs [])" for k idx
    using storedResponses_keys [OF that] taskOutcomes_key_bracket by auto
  have step: "?I (?f x acc)" if "?I acc" for x acc
  proof (cases x)
    case (Pair idx promptConfig)
    show ?thesis
    proof (cases "messages promptConfig")
      case None
      with Pair that show ?thesis by simp
    next
      case (Some promptMessages)
      have "\<forall>k \<in> fst ` set (modelResponses pdata). endsWithBracket k"
        if "(pid, pdata) \<in> set (?f x acc)" for pid pdata
      proof -
        from that Pair Some have
          "(pid, pdata) = (prompt_id promptConfig,
              promptContainer promptConfig promptMessages (storedResponses idx ?outs [])) \<or>
           (pid, pdata) \<in> set acc"
          by (auto dest: update_values)
        then show ?thesis
        proof
          assume "(pid, pdata) = (prompt_id promptConfig,
              promptContainer promptConfig promptMessages (storedResponses idx ?outs []))"
          then have "modelResponses pdata = storedResponses idx ?outs []"
            by (simp add: promptContainer_def)
          with stored show ?thesis by auto
        next
          assume "(pid, pdata) \<in> set acc"
          with \<open>?I acc\<close> show ?thesis by auto
        qed
      qed
      then show ?thesis by auto
    qed
  qed
  have "?I (fold ?f (zip [0..<length (prompts config)] (prompts config)) [])"
    by (rule fold_invariant) (use step in auto)
  moreover from assms have
    "arm = fold ?f (zip [0..<length (prompts config)] (prompts config)) []"
    by (auto simp: generateAllResponses_def split: option.splits)
  ultimately show ?thesis by auto
qed

text \<open>
  C8 as stated fails for a run that is handed pre-generated responses with a record
  stored under the reserved id: no prompt supplies an ideal response, and the list
  holds the reserved id.
\<close>

theorem reserved_id_among_pregenerated_keys:
  "map_sum (\<lambda>error. error) (\<lambda>res. effectiveModels (data res))
     (executeComparisonPipeline answeringProvider acceptingStorage baseConfig ''run'' []
        (Some reservedKeyResponses) False None None) = Inr [''IDEAL_MODEL_ID''] \<and>
   IDEAL_MODEL_ID acceptingStorage = ''IDEAL_MODEL_ID'' \<and>
   map idealResponse (prompts baseConfig) = [None]"
  by code_simp

text \<open>
  C8, amended. In the document of every run that returns one, \<open>effectiveModels\<close> is
  sorted, without repetition, and holds exactly the effective model ids observed in the
  containers, together with the reserved ideal-model id when some prompt of the
  configuration supplied a non-empty ideal response. When the run generated its
  responses (the reserved id not ending in a closing bracket, as every generated key
  does), and more generally when the reserved id is not the key of a stored record, the
  reserved id is in the list if and only if some prompt supplied a non-empty ideal
  response.
\<close>

theorem effectiveModels_sorted_with_ideal:
  assumes "executeComparisonPipeline gdeps deps config label evalMethods existingResponsesMap
             cache commitSha blueprintFileName = Inr res"
  shows "\<exists>allResponsesMap.
           (case existingResponsesMap of
              Some m \<Rightarrow> Inr m
            | None \<Rightarrow> generateAllResponses gdeps config cache) = Inr allResponsesMap \<and>
           sorted (effectiveModels (data res)) \<and> distinct (effectiveModels (data res)) \<and>
           set (effectiveModels (data res)) =
             set (concat (map (\<lambda>(pid, pdata). map fst (modelResponses pdata)) allResponsesMap)) \<union>
               (if \<exists>p \<in> set (prompts config). \<exists>s. idealResponse p = Some s \<and> s \<noteq> []
                then {IDEAL_MODEL_ID deps} else {}) \<and>
           ((existingResponsesMap = None \<and> \<not> endsWithBracket (IDEAL_MODEL_ID deps)) \<or>
            IDEAL_MODEL_ID deps \<notin>
              set (concat (map (\<lambda>(pid, pdata). map fst (modelResponses pdata)) allResponsesMap)) \<longrightarrow>
            (IDEAL_MODEL_ID deps \<in> set (effectiveModels (data res)) \<longleftrightarrow>
               (\<exists>p \<in> set (prompts config). \<exists>s. idealResponse p = Some s \<and> s \<noteq> [])))"
proof -
  from executeComparisonPipeline_data [OF assms] obtain arm results cid title where
    arm: "(case existingResponsesMap of
             Some m \<Rightarrow> Inr m
           | None \<Rightarrow> generateAllResponses gdeps config cache) = Inr arm"
    and d: "data res = finalOutput deps config cid title label arm results evalMethods commitSha
                         blueprintFileName"
    by blast
  define obs where "obs = set (concat (map (\<lambda>(pid, pdata). map fst (modelResponses pdata)) arm))"
  define anyIdeal where
    "anyIdeal \<longleftrightarrow> (\<exists>p \<in> set (prompts config). \<exists>s. idealResponse p = Some s \<and> s \<noteq> [])"
  note e = effectiveModels_finalOutput
             [of deps config cid title label arm results evalMethods commitSha blueprintFileName,
              folded d, unfolded hasAnyIdeal_iff, folded obs_def anyIdeal_def]
  from e have s: "sorted (effectiveModels (data res))" and di: "distinct (effectiveModels (data res))"
    and eq: "set (effectiveModels (data res)) = obs \<union> (if anyIdeal then {IDEAL_MODEL_ID deps} else {})"
    by blast+
  have fresh: "IDEAL_MODEL_ID deps \<notin> obs"
    if "existingResponsesMap = None \<and> \<not> endsWithBracket (IDEAL_MODEL_ID deps)"
  proof -
    from that arm have "generateAllResponses gdeps config cache = Inr arm" by simp
    from generateAllResponses_key_bracket [OF this] that show ?thesis
      unfolding obs_def by blast
  qed
  have iff: "(existingResponsesMap = None \<and> \<not> endsWithBracket (IDEAL_MODEL_ID deps)) \<or>
             IDEAL_MODEL_ID deps \<notin> obs \<longrightarrow>
             (IDEAL_MODEL_ID deps \<in> set (effectiveModels (data res)) \<longleftrightarrow> anyIdeal)"
    using fresh eq by auto
  from arm s di eq iff show ?thesis
    unfolding obs_def anyIdeal_def by (intro exI [of _ arm] conjI)
qed

theorem effectiveModels_sorted_with_ideal_witness:
  "\<exists>res. executeComparisonPipeline answeringProvider failingStorage idealConfig ''run''
            [''embedding''] None False None None = Inr res \<and>
         sorted (effectiveModels (data res)) \<and>
         IDEAL_MODEL_ID failingStorage \<in> set (effectiveModels (data res))"
proof -
  have "map_sum (\<lambda>error. error) fileName
          (executeComparisonPipeline answeringProvider failingStorage idealConfig ''run''
             [''embedding''] None False None None) = Inr None"
    by code_simp
  then obtain res where run: "executeComparisonPipeline answeringProvider failingStorage idealConfig
             ''run'' [''embedding''] None False None None = Inr res"
    by (cases "executeComparisonPipeline answeringProvider failingStorage idealConfig
             ''run'' [''embedding''] None False None None") auto
  have generated: "(None :: (string \<times> PromptResponseData) list option) = None \<and>
                   \<not> endsWithBracket (IDEAL_MODEL_ID failingStorage)"
    by code_simp
  have ideal: "\<exists>p \<in> set (prompts idealConfig). \<exists>s. idealResponse p = Some s \<and> s \<noteq> []"
    by (simp add: idealConfig_def baseConfig_def promptWithIdeal_def)
  from effectiveModels_sorted_with_ideal [OF run] generated ideal
  have "sorted (effectiveModels (data res)) \<and>
        IDEAL_MODEL_ID failingStorage \<in> set (effectiveModels (data res))"
    by blast
  with run show ?thesis by blast
qed




section \<open>Parsing effective model ids\<close>

lemma takeWhile_up_to: "c \<notin> set a \<Longrightarrow> takeWhile (\<lambda>x. x \<noteq> c) (a @ c # r) = a"
  by (induction a) auto

lemma isDigit_not_bracket: "isDigit c \<Longrightarrow> c \<noteq> CHR ''[''"
  by (auto simp: isDigit_def)

lemma dropWhile_up_to: "c \<notin> set a \<Longrightarrow> dropWhile (\<lambda>x. x \<noteq> c) (a @ c # r) = c # r"
  by (induction a) auto

lemma stripTrailingTag_bracketed:
  assumes "CHR ''['' \<notin> set inner"
  shows "stripTrailingTag (s @ ''['' @ inner @ '']'') = Some (s, inner)"
proof -
  have r: "rev (s @ ''['' @ inner @ '']'') = CHR '']'' # (rev inner @ CHR ''['' # rev s)"
    by simp
  from assms have n: "CHR ''['' \<notin> set (rev inner)"
    by simp
  show ?thesis
    unfolding stripTrailingTag_def r
    by (simp add: dropWhile_up_to [OF n] takeWhile_up_to [OF n])
qed

lemma isTokenChar_not_bracket: "isTokenChar c \<Longrightarrow> c \<noteq> CHR ''[''"
  by (auto simp: isTokenChar_def)

lemma isToken_no_bracket: "isToken h \<Longrightarrow> CHR ''['' \<notin> set h"
  using isTokenChar_not_bracket by (auto simp: isToken_def list_all_iff)

lemma numberOfText_no_bracket:
  assumes "numberOfText t = Some v"
  shows "CHR ''['' \<notin> set t"
proof -
  let ?ip = "takeWhile isDigit t" and ?rest = "dropWhile isDigit t"
  have ip: "CHR ''['' \<notin> set ?ip"
    using isDigit_not_bracket by (auto dest: set_takeWhileD)
  have rest: "CHR ''['' \<notin> set ?rest"
  proof (cases ?rest)
    case Nil
    show ?thesis unfolding Nil by simp
  next
    case (Cons c fp)
    with assms have "c = CHR ''.''" "list_all isDigit fp"
      by (auto simp: numberOfText_def Let_def split: if_splits)
    with Cons isDigit_not_bracket show ?thesis
      by (auto simp: list_all_iff)
  qed
  have "set t = set ?ip \<union> set ?rest"
    by (metis set_append takeWhile_dropWhile_id)
  with ip rest show ?thesis by simp
qed

lemma sysTagToken_sys: "isToken h \<Longrightarrow> sysTagToken (''sys:'' @ h) = Some h"
  by (simp add: sysTagToken_def)

lemma sysTagToken_temp: "sysTagToken (''temp:'' @ t) = None"
  by (simp add: sysTagToken_def)

lemma tempTagNumber_temp: "tempTagNumber (''temp:'' @ t) = numberOfText t"
  by (simp add: tempTagNumber_def)

lemma parseTags_no_tag:
  assumes "\<not> endsWithTag s"
  shows "parseTags s t h = \<lparr>baseId = s, parsedTemperature = t, systemPromptHash = h\<rparr>"
  using assms
  by (subst parseTags.simps) (auto simp: endsWithTag_def split: option.splits)

lemma parseTags_sys:
  assumes "isToken hash"
  shows "parseTags (s @ ''[sys:'' @ hash @ '']'') t h = parseTags s t (Some hash)"
proof -
  have "CHR ''['' \<notin> set (''sys:'' @ hash)"
    using isToken_no_bracket [OF assms] by simp
  from stripTrailingTag_bracketed [OF this, of s]
  have "stripTrailingTag (s @ ''[sys:'' @ hash @ '']'') = Some (s, ''sys:'' @ hash)"
    by simp
  then show ?thesis
    by (subst parseTags.simps) (simp only: option.simps prod.case sysTagToken_sys [OF assms])
qed

lemma parseTags_temp:
  assumes "numberOfText num = Some v"
  shows "parseTags (s @ ''[temp:'' @ num @ '']'') t h = parseTags s (Some v) h"
proof -
  have "CHR ''['' \<notin> set (''temp:'' @ num)"
    using numberOfText_no_bracket [OF assms] by simp
  from stripTrailingTag_bracketed [OF this, of s]
  have "stripTrailingTag (s @ ''[temp:'' @ num @ '']'') = Some (s, ''temp:'' @ num)"
    by simp
  then show ?thesis
    by (subst parseTags.simps)
       (simp only: option.simps prod.case sysTagToken_temp tempTagNumber_temp assms)
qed

text \<open>
  C3 as stated fails for a base that itself ends in a tag: the parser goes on stripping,
  and the base id it returns is shorter than the base the string was built from. The
  two orders still parse alike.
\<close>

theorem parse_strips_tags_of_base:
  "baseId (parseEffectiveModelId ''IDEAL_MODEL_ID'' (''a[temp:0.3]'' @ ''[sys:X][temp:0.5]'')) = ''a'' \<and>
   parseEffectiveModelId ''IDEAL_MODEL_ID'' (''a[temp:0.3]'' @ ''[sys:X][temp:0.5]'') \<noteq>
     \<lparr>baseId = ''a[temp:0.3]'', parsedTemperature = Some (Finite (1 / 2)),
      systemPromptHash = Some ''X''\<rparr> \<and>
   parseEffectiveModelId ''IDEAL_MODEL_ID'' (''a[temp:0.3]'' @ ''[sys:X][temp:0.5]'') =
     parseEffectiveModelId ''IDEAL_MODEL_ID'' (''a[temp:0.3]'' @ ''[temp:0.5][sys:X]'')"
  by code_simp

text \<open>
  C3, amended. For every base string, every token \<open>H\<close> and every numeral \<open>T\<close>, the
  strings \<open>base[sys:H][temp:T]\<close> and \<open>base[temp:T][sys:H]\<close> parse to the same
  triple: extraction does not depend on the order of the two trailing tags. When the
  base does not itself end in a tag and is not the legacy alias, that triple is the
  base, the number \<open>T\<close> denotes and \<open>H\<close>.
\<close>

theorem parse_order_independent:
  assumes "isToken H" "numberOfText T = Some v"
  shows "parseEffectiveModelId idealBase (base @ ''[sys:'' @ H @ '']'' @ ''[temp:'' @ T @ '']'') =
           parseEffectiveModelId idealBase (base @ ''[temp:'' @ T @ '']'' @ ''[sys:'' @ H @ '']'') \<and>
         (\<not> endsWithTag base \<and> base \<noteq> ''IDEAL_BENCHMARK'' \<longrightarrow>
            parseEffectiveModelId idealBase (base @ ''[sys:'' @ H @ '']'' @ ''[temp:'' @ T @ '']'') =
              \<lparr>baseId = base, parsedTemperature = Some v, systemPromptHash = Some H\<rparr>)"
proof -
  have a: "parseTags ((base @ ''[sys:'' @ H @ '']'') @ ''[temp:'' @ T @ '']'') None None =
             parseTags base (Some v) (Some H)"
    by (simp only: parseTags_temp [OF assms(2)] parseTags_sys [OF assms(1)])
  have b: "parseTags ((base @ ''[temp:'' @ T @ '']'') @ ''[sys:'' @ H @ '']'') None None =
             parseTags base (Some v) (Some H)"
    by (simp only: parseTags_temp [OF assms(2)] parseTags_sys [OF assms(1)])
  have same: "parseEffectiveModelId idealBase (base @ ''[sys:'' @ H @ '']'' @ ''[temp:'' @ T @ '']'') =
           parseEffectiveModelId idealBase (base @ ''[temp:'' @ T @ '']'' @ ''[sys:'' @ H @ '']'')"
    using a b by (simp add: parseEffectiveModelId_def)
  have plain: "parseEffectiveModelId idealBase (base @ ''[sys:'' @ H @ '']'' @ ''[temp:'' @ T @ '']'') =
              \<lparr>baseId = base, parsedTemperature = Some v, systemPromptHash = Some H\<rparr>"
    if "\<not> endsWithTag base" "base \<noteq> ''IDEAL_BENCHMARK''"
    using a that by (simp add: parseEffectiveModelId_def Let_def parseTags_no_tag)
  from same plain show ?thesis by blast
qed

theorem parse_order_independent_witness:
  "parseEffectiveModelId ''IDEAL_MODEL_ID''
     (''openrouter:test-model'' @ ''[sys:'' @ ''1a2b3c'' @ '']'' @ ''[temp:'' @ ''0.5'' @ '']'') =
   parseEffectiveModelId ''IDEAL_MODEL_ID''
     (''openrouter:test-model'' @ ''[temp:'' @ ''0.5'' @ '']'' @ ''[sys:'' @ ''1a2b3c'' @ '']'') \<and>
   parseEffectiveModelId ''IDEAL_MODEL_ID''
     (''openrouter:test-model'' @ ''[sys:'' @ ''1a2b3c'' @ '']'' @ ''[temp:'' @ ''0.5'' @ '']'') =
     \<lparr>baseId = ''openrouter:test-model'', parsedTemperature = Some (Finite (1 / 2)),
      systemPromptHash = Some ''1a2b3c''\<rparr>"
proof -
  have h1: "\<not> endsWithTag ''openrouter:test-model''"
    by code_simp
  have h2: "''openrouter:test-model'' \<noteq> ''IDEAL_BENCHMARK''"
    by simp
  have h3: "isToken ''1a2b3c''"
    by code_simp
  have h4: "numberOfText ''0.5'' = Some (Finite (1 / 2))"
    by code_simp
  from parse_order_independent [OF h3 h4, of "''IDEAL_MODEL_ID''" "''openrouter:test-model''"] h1 h2
  show ?thesis by (intro conjI) (erule conjunct1, erule conjE, erule impE, erule conjI, assumption+)
qed

end
